theory Spec2Isabelle
  imports Main "HOL-Library.Word"
begin

section \<open>UFCx: the interface header \<open>ffcx/codegeneration/ufcx.h\<close>\<close>

subsection \<open>The version macros (lines 13--24)\<close>

text \<open>
  Preprocessing tokens, as far as the header uses them: identifiers, integer
  pp-numbers (kept by value) and string literals (kept by content).
\<close>

datatype pp_token = Identifier string | PPNumber nat | StringLiteral string

type_synonym macro_table = "(string \<times> pp_token list) list"

text \<open>
  Expansion of object-like macros. A macro's replacement list is rescanned with
  the macro itself no longer available, as the C preprocessor does.
\<close>

function expand :: "macro_table \<Rightarrow> pp_token list \<Rightarrow> pp_token list" where
  "expand ms [] = []"
| "expand ms (Identifier x # ts) =
     (case map_of ms x of
        None \<Rightarrow> [Identifier x]
      | Some body \<Rightarrow> expand (filter (\<lambda>d. fst d \<noteq> x) ms) body) @ expand ms ts"
| "expand ms (PPNumber n # ts) = PPNumber n # expand ms ts"
| "expand ms (StringLiteral s # ts) = StringLiteral s # expand ms ts"
  by pat_completeness auto

termination
proof (relation "measures [\<lambda>(ms, ts). length ms, \<lambda>(ms, ts). length ts]")
  show "wf (measures [\<lambda>(ms, ts). length ms, \<lambda>(ms :: macro_table, ts :: pp_token list). length ts])"
    by simp
next
  fix ms :: macro_table and x ts body
  assume "map_of ms x = Some body"
  then have "(x, body) \<in> set ms"
    by (rule map_of_SomeD)
  then have "length (filter (\<lambda>d. fst d \<noteq> x) ms) < length ms"
    by (intro length_filter_less[where x = "(x, body)"]) simp_all
  then show "((filter (\<lambda>d. fst d \<noteq> x) ms, body), (ms, Identifier x # ts))
      \<in> measures [\<lambda>(ms, ts). length ms, \<lambda>(ms, ts). length ts]"
    by simp
qed simp_all

text \<open>The controlling expression of \<open>#if\<close>: true when it expands to a nonzero number.\<close>

definition pp_if :: "macro_table \<Rightarrow> pp_token list \<Rightarrow> bool" where
  "pp_if ms cond = (case expand ms cond of [PPNumber n] \<Rightarrow> n \<noteq> 0 | _ \<Rightarrow> False)"

text \<open>Translation phase 6: adjacent string literal tokens are concatenated.\<close>

fun concat_string_literals :: "pp_token list \<Rightarrow> pp_token list" where
  "concat_string_literals (StringLiteral a # StringLiteral b # ts) =
     concat_string_literals (StringLiteral (a @ b) # ts)"
| "concat_string_literals (t # ts) = t # concat_string_literals ts"
| "concat_string_literals [] = []"

text \<open>A token sequence is a string when it is one string literal.\<close>

definition as_string :: "pp_token list \<Rightarrow> string option" where
  "as_string ts = (case ts of [StringLiteral s] \<Rightarrow> Some s | _ \<Rightarrow> None)"

text \<open>
  The \<open>#define\<close>s of lines 13--24, with the four version numbers as parameters:
  lines 13--16 define them as integer tokens, and the \<open>#if\<close> of line 18 chooses
  the replacement list of \<open>UFCX_VERSION\<close>.
\<close>

definition version_numbers :: "nat \<Rightarrow> nat \<Rightarrow> nat \<Rightarrow> nat \<Rightarrow> macro_table" where
  "version_numbers major minor maintenance release =
     [(''UFCX_VERSION_MAJOR'', [PPNumber major]),
      (''UFCX_VERSION_MINOR'', [PPNumber minor]),
      (''UFCX_VERSION_MAINTENANCE'', [PPNumber maintenance]),
      (''UFCX_VERSION_RELEASE'', [PPNumber release])]"

definition version_macros :: "nat \<Rightarrow> nat \<Rightarrow> nat \<Rightarrow> nat \<Rightarrow> macro_table" where
  "version_macros major minor maintenance release =
     (let ms = version_numbers major minor maintenance release in
      ms @
      [(''UFCX_VERSION'',
        if pp_if ms [Identifier ''UFCX_VERSION_RELEASE'']
        then [Identifier ''UFCX_VERSION_MAJOR'', StringLiteral ''.'',
              Identifier ''UFCX_VERSION_MINOR'', StringLiteral ''.'',
              Identifier ''UFCX_VERSION_MAINTENANCE'']
        else [Identifier ''UFCX_VERSION_MAJOR'', StringLiteral ''.'',
              Identifier ''UFCX_VERSION_MINOR'', StringLiteral ''.'',
              Identifier ''UFCX_VERSION_MAINTENANCE'', StringLiteral ''.dev0''])])"

text \<open>What a use of \<open>UFCX_VERSION\<close> in a translation unit becomes.\<close>

definition UFCX_VERSION :: "nat \<Rightarrow> nat \<Rightarrow> nat \<Rightarrow> nat \<Rightarrow> pp_token list" where
  "UFCX_VERSION major minor maintenance release =
     concat_string_literals
       (expand (version_macros major minor maintenance release) [Identifier ''UFCX_VERSION''])"

subsection \<open>The integral kinds (lines 44--49)\<close>

datatype ufcx_integral_type = cell | exterior_facet | interior_facet

fun integral_type_value :: "ufcx_integral_type \<Rightarrow> int" where
  "integral_type_value cell = 0"
| "integral_type_value exterior_facet = 1"
| "integral_type_value interior_facet = 2"

subsection \<open>The type declarations (lines 44--237)\<close>

text \<open>
  The types the header writes, as data. A pointer keeps whether it is
  \<open>restrict\<close>-qualified; \<open>const\<close> qualifies the type it stands before.
\<close>

datatype base_type =
    C_void | C_bool | C_char | C_int | C_uint8 | C_uint64
  | C_float | C_double | C_float_complex | C_double_complex

datatype ctype =
    Base base_type
  | Named string
  | Const ctype
  | Pointer ctype
  | RestrictPointer ctype
  | Function ctype "(string \<times> ctype) list"

datatype decl =
    EnumDecl string "(string \<times> int) list"
  | TypedefDecl string ctype
  | StructDecl string "(string \<times> ctype) list"

text \<open>The parameter list the four kernel typedefs share, over the scalar types that differ.\<close>

definition tabulate_tensor_type :: "base_type \<Rightarrow> base_type \<Rightarrow> ctype" where
  "tabulate_tensor_type scalar geometry =
     Function (Base C_void)
       [(''A'', RestrictPointer (Base scalar)),
        (''w'', RestrictPointer (Const (Base scalar))),
        (''c'', RestrictPointer (Const (Base scalar))),
        (''coordinate_dofs'', RestrictPointer (Const (Base geometry))),
        (''entity_local_index'', RestrictPointer (Const (Base C_int))),
        (''quadrature_permutation'', RestrictPointer (Const (Base C_uint8)))]"

definition ufcx_h :: "decl list" where
  "ufcx_h =
     [EnumDecl ''ufcx_integral_type''
        [(''cell'', 0), (''exterior_facet'', 1), (''interior_facet'', 2)],
      TypedefDecl ''ufcx_tabulate_tensor_float32'' (tabulate_tensor_type C_float C_float),
      TypedefDecl ''ufcx_tabulate_tensor_float64'' (tabulate_tensor_type C_double C_double),
      TypedefDecl ''ufcx_tabulate_tensor_complex64''
        (tabulate_tensor_type C_float_complex C_float),
      TypedefDecl ''ufcx_tabulate_tensor_complex128''
        (tabulate_tensor_type C_double_complex C_double),
      StructDecl ''ufcx_integral''
        [(''enabled_coefficients'', Pointer (Const (Base C_bool))),
         (''tabulate_tensor_float32'', Pointer (Named ''ufcx_tabulate_tensor_float32'')),
         (''tabulate_tensor_float64'', Pointer (Named ''ufcx_tabulate_tensor_float64'')),
         (''tabulate_tensor_complex64'', Pointer (Named ''ufcx_tabulate_tensor_complex64'')),
         (''tabulate_tensor_complex128'', Pointer (Named ''ufcx_tabulate_tensor_complex128'')),
         (''needs_facet_permutations'', Base C_bool),
         (''coordinate_element_hash'', Base C_uint64)],
      StructDecl ''ufcx_expression''
        [(''tabulate_tensor_float32'', Pointer (Named ''ufcx_tabulate_tensor_float32'')),
         (''tabulate_tensor_float64'', Pointer (Named ''ufcx_tabulate_tensor_float64'')),
         (''tabulate_tensor_complex64'', Pointer (Named ''ufcx_tabulate_tensor_complex64'')),
         (''tabulate_tensor_complex128'', Pointer (Named ''ufcx_tabulate_tensor_complex128'')),
         (''num_coefficients'', Base C_int),
         (''num_constants'', Base C_int),
         (''original_coefficient_positions'', Pointer (Const (Base C_int))),
         (''coefficient_names'', Pointer (Pointer (Const (Base C_char)))),
         (''constant_names'', Pointer (Pointer (Const (Base C_char)))),
         (''num_points'', Base C_int),
         (''entity_dimension'', Base C_int),
         (''points'', Pointer (Const (Base C_double))),
         (''value_shape'', Pointer (Const (Base C_int))),
         (''num_components'', Base C_int),
         (''rank'', Base C_int)],
      StructDecl ''ufcx_form''
        [(''signature'', Pointer (Const (Base C_char))),
         (''rank'', Base C_int),
         (''num_coefficients'', Base C_int),
         (''num_constants'', Base C_int),
         (''original_coefficient_positions'', Pointer (Base C_int)),
         (''coefficient_name_map'', Pointer (Pointer (Const (Base C_char)))),
         (''constant_name_map'', Pointer (Pointer (Const (Base C_char)))),
         (''finite_element_hashes'', Pointer (Base C_uint64)),
         (''form_integrals'', Pointer (Pointer (Named ''ufcx_integral''))),
         (''form_integral_ids'', Pointer (Base C_int)),
         (''form_integral_offsets'', Pointer (Base C_int))]]"

text \<open>The enumerators of an enumeration declared in the header.\<close>

fun enum_decl :: "decl \<Rightarrow> (string \<times> (string \<times> int) list) option" where
  "enum_decl (EnumDecl name values) = Some (name, values)"
| "enum_decl _ = None"

definition enumerators :: "string \<Rightarrow> (string \<times> int) list option" where
  "enumerators name = map_of (List.map_filter enum_decl ufcx_h) name"

text \<open>The typedefs of function type: name, return type and parameters.\<close>

fun function_typedef :: "decl \<Rightarrow> (string \<times> ctype \<times> (string \<times> ctype) list) option" where
  "function_typedef (TypedefDecl name (Function ret params)) = Some (name, ret, params)"
| "function_typedef _ = None"

definition kernel_signatures :: "(string \<times> ctype \<times> (string \<times> ctype) list) list" where
  "kernel_signatures = List.map_filter function_typedef ufcx_h"

definition parameters :: "string \<Rightarrow> (string \<times> ctype) list option" where
  "parameters name = map_option snd (map_of kernel_signatures name)"

definition parameter_type :: "string \<Rightarrow> string \<Rightarrow> ctype option" where
  "parameter_type name param =
     (case parameters name of None \<Rightarrow> None | Some ps \<Rightarrow> map_of ps param)"

text \<open>The scalar type a buffer parameter points to, with the qualifiers dropped.\<close>

fun pointee :: "ctype \<Rightarrow> base_type option" where
  "pointee (Pointer (Base b)) = Some b"
| "pointee (Pointer (Const (Base b))) = Some b"
| "pointee (RestrictPointer (Base b)) = Some b"
| "pointee (RestrictPointer (Const (Base b))) = Some b"
| "pointee _ = None"

definition buffer_scalar :: "string \<Rightarrow> string \<Rightarrow> base_type option" where
  "buffer_scalar name param =
     (case parameter_type name param of None \<Rightarrow> None | Some t \<Rightarrow> pointee t)"

fun is_pointer :: "ctype \<Rightarrow> bool" where
  "is_pointer (Pointer _) = True"
| "is_pointer (RestrictPointer _) = True"
| "is_pointer _ = False"

text \<open>A parameter the callee can write through: a pointer to a type that is not \<open>const\<close>.\<close>

fun writable :: "ctype \<Rightarrow> bool" where
  "writable (Pointer (Const _)) = False"
| "writable (RestrictPointer (Const _)) = False"
| "writable (Pointer _) = True"
| "writable (RestrictPointer _) = True"
| "writable _ = False"

fun is_complex :: "base_type \<Rightarrow> bool" where
  "is_complex C_float_complex = True"
| "is_complex C_double_complex = True"
| "is_complex _ = False"

fun is_double_precision :: "base_type \<Rightarrow> bool" where
  "is_double_precision C_double = True"
| "is_double_precision C_double_complex = True"
| "is_double_precision _ = False"

subsection \<open>The structures \<open>ufcx_integral\<close> and \<open>ufcx_form\<close> (lines 121--132, 198--237)\<close>

text \<open>
  A C \<open>int\<close> is a 32-bit word read as two's complement, a \<open>uint64_t\<close> a 64-bit
  word. An array behind a pointer is the list of its entries. A pointer to a kernel
  is the symbol of the generated function it points to, or \<open>None\<close> for a null pointer.
\<close>

type_synonym c_int = "32 word"
type_synonym kernel_pointer = "string option"

record ufcx_integral =
  enabled_coefficients :: "bool list"
  tabulate_tensor_float32 :: kernel_pointer
  tabulate_tensor_float64 :: kernel_pointer
  tabulate_tensor_complex64 :: kernel_pointer
  tabulate_tensor_complex128 :: kernel_pointer
  needs_facet_permutations :: bool
  coordinate_element_hash :: "64 word"

record ufcx_form =
  signature :: string
  rank :: c_int
  num_coefficients :: c_int
  num_constants :: c_int
  original_coefficient_positions :: "c_int list"
  coefficient_name_map :: "string list"
  constant_name_map :: "string list"
  finite_element_hashes :: "64 word list"
  form_integrals :: "ufcx_integral list"
  form_integral_ids :: "c_int list"
  form_integral_offsets :: "c_int list"

subsection \<open>Constructing and reading a form\<close>

text \<open>The integral kinds in the order of their enum values.\<close>

definition integral_kinds :: "ufcx_integral_type list" where
  "integral_kinds = [cell, exterior_facet, interior_facet]"

text \<open>A count fits a C \<open>int\<close>.\<close>

definition fits_int :: "nat \<Rightarrow> bool" where
  "fits_int n = (n < 2 ^ 31)"

text \<open>
  Modelled from the spec: the offsets of consecutive groups are the running totals
  of their sizes, where each group starts, and last where the last one ends.
\<close>

fun offsets_from :: "nat \<Rightarrow> nat list \<Rightarrow> nat list" where
  "offsets_from start [] = [start]"
| "offsets_from start (n # ns) = start # offsets_from (start + n) ns"

text \<open>
  Modelled from the spec: what a form records for each coefficient, its name, its
  original position and the hash of its element.
\<close>

record coefficient =
  coefficient_name :: string
  original_position :: c_int
  element_hash :: "64 word"

text \<open>
  Modelled from the spec: the construction of a \<open>ufcx_form\<close> (the header declares
  the structure; the generator that fills it is not in this file). The form is
  built from the hashes of the elements of its arguments, its coefficients, the
  names of its constants and, for each integral kind, the integrals of that kind
  with their ids. The hashes of the arguments come first, then those of the
  coefficients. The integrals are laid out kind after kind in enum order, ids and
  integrals in parallel, and the offsets are the running totals of the three group
  sizes, with the total as sentinel. No form is built when a count does not fit
  the \<open>int\<close> field that holds it.
\<close>

definition make_form ::
  "string \<Rightarrow> 64 word list \<Rightarrow> coefficient list \<Rightarrow> string list \<Rightarrow>
   (ufcx_integral_type \<Rightarrow> (c_int \<times> ufcx_integral) list) \<Rightarrow> ufcx_form option" where
  "make_form sig argument_hashes coefficients constants integrals =
     (let groups = map integrals integral_kinds;
          entries = concat groups
      in if fits_int (length argument_hashes) \<and> fits_int (length coefficients)
            \<and> fits_int (length constants) \<and> fits_int (length entries)
         then Some \<lparr>
           signature = sig,
           rank = of_nat (length argument_hashes),
           num_coefficients = of_nat (length coefficients),
           num_constants = of_nat (length constants),
           original_coefficient_positions = map original_position coefficients,
           coefficient_name_map = map coefficient_name coefficients,
           constant_name_map = constants,
           finite_element_hashes = argument_hashes @ map element_hash coefficients,
           form_integrals = map snd entries,
           form_integral_ids = map fst entries,
           form_integral_offsets = map of_nat (offsets_from 0 (map length groups)) \<rparr>
         else None)"

text \<open>
  Modelled from the spec: reading the integrals of one kind out of a form. The
  kind's enum value \<open>k\<close> selects the pair of offsets \<open>k\<close> and \<open>k + 1\<close>; the entries
  from the first offset up to the second are the kind's integrals, with their ids.
\<close>

definition integrals_of_kind ::
  "ufcx_form \<Rightarrow> ufcx_integral_type \<Rightarrow> (c_int \<times> ufcx_integral) list" where
  "integrals_of_kind form kind =
     (let k = nat (integral_type_value kind);
          first = nat (sint (form_integral_offsets form ! k));
          last = nat (sint (form_integral_offsets form ! (k + 1)))
      in take (last - first)
           (drop first (zip (form_integral_ids form) (form_integrals form))))"

subsection \<open>A small form\<close>

text \<open>
  A form with two arguments, three coefficients and one constant; two cell
  integrals, no exterior facet integral and one interior facet integral.
\<close>

definition example_integral :: "string \<Rightarrow> ufcx_integral" where
  "example_integral symbol =
     \<lparr> enabled_coefficients = [True],
       tabulate_tensor_float32 = None,
       tabulate_tensor_float64 = Some symbol,
       tabulate_tensor_complex64 = None,
       tabulate_tensor_complex128 = None,
       needs_facet_permutations = False,
       coordinate_element_hash = 7 \<rparr>"

fun example_integrals :: "ufcx_integral_type \<Rightarrow> (c_int \<times> ufcx_integral) list" where
  "example_integrals cell = [(- 1, example_integral ''cell_otherwise''), (2, example_integral ''cell_2'')]"
| "example_integrals exterior_facet = []"
| "example_integrals interior_facet = [(5, example_integral ''interior_5'')]"

definition example_coefficients :: "coefficient list" where
  "example_coefficients =
     [\<lparr> coefficient_name = ''f'', original_position = 0, element_hash = 30 \<rparr>,
      \<lparr> coefficient_name = ''g'', original_position = 1, element_hash = 40 \<rparr>,
      \<lparr> coefficient_name = ''h'', original_position = 2, element_hash = 50 \<rparr>]"

section \<open>Properties\<close>

lemma expand_version_macros:
  "expand (version_macros major minor maintenance release) [Identifier ''UFCX_VERSION''] =
     (if release \<noteq> 0
      then [PPNumber major, StringLiteral ''.'', PPNumber minor, StringLiteral ''.'',
            PPNumber maintenance]
      else [PPNumber major, StringLiteral ''.'', PPNumber minor, StringLiteral ''.'',
            PPNumber maintenance, StringLiteral ''.dev0''])"
  by (simp add: version_macros_def version_numbers_def pp_if_def)

text \<open>
  C2. With the version numbers 0, 9, 0, 0 of the header, \<open>UFCX_VERSION\<close> becomes the
  six tokens \<open>0 "." 9 "." 0 ".dev0"\<close>: the numbers are integer tokens, no two
  string literals are adjacent, nothing is concatenated, and the result is not the
  string \<open>"0.9.0.dev0"\<close> (nor any string). With a nonzero release number the
  \<open>.dev0\<close> token is left out, and the five tokens that remain are not a string either.
\<close>

theorem UFCX_VERSION_not_a_string:
  "UFCX_VERSION 0 9 0 0 =
     [PPNumber 0, StringLiteral ''.'', PPNumber 9, StringLiteral ''.'', PPNumber 0,
      StringLiteral ''.dev0'']
   \<and> as_string (UFCX_VERSION 0 9 0 0) \<noteq> Some ''0.9.0.dev0''
   \<and> as_string (UFCX_VERSION 0 9 0 0) = None
   \<and> UFCX_VERSION 0 9 0 1 =
     [PPNumber 0, StringLiteral ''.'', PPNumber 9, StringLiteral ''.'', PPNumber 0]
   \<and> as_string (UFCX_VERSION 0 9 0 1) = None"
  unfolding UFCX_VERSION_def expand_version_macros
  by (simp add: as_string_def)

text \<open>
  C4. The integral kinds are exactly cell, exterior facet and interior facet, with
  the values 0, 1 and 2; the values are constants of the header (they depend on
  nothing), distinct, and no other value belongs to a kind.
\<close>

theorem integral_type_values:
  "integral_type_value cell = 0
   \<and> integral_type_value exterior_facet = 1
   \<and> integral_type_value interior_facet = 2
   \<and> (UNIV :: ufcx_integral_type set) = {cell, exterior_facet, interior_facet}
   \<and> inj integral_type_value
   \<and> range integral_type_value = {0, 1, 2}
   \<and> enumerators ''ufcx_integral_type'' =
        Some [(''cell'', 0), (''exterior_facet'', 1), (''interior_facet'', 2)]
   \<and> map integral_type_value integral_kinds = [0, 1, 2]"
proof -
  have univ: "(UNIV :: ufcx_integral_type set) = {cell, exterior_facet, interior_facet}"
  proof -
    have "k \<in> {cell, exterior_facet, interior_facet}" for k
      by (cases k) simp_all
    then show ?thesis by blast
  qed
  have inj: "inj integral_type_value"
  proof (rule injI)
    fix a b
    assume "integral_type_value a = integral_type_value b"
    then show "a = b" by (cases a; cases b) simp_all
  qed
  have "range integral_type_value = integral_type_value ` {cell, exterior_facet, interior_facet}"
    using univ by simp
  then have rng: "range integral_type_value = {0, 1, 2}" by simp
  have decl: "enumerators ''ufcx_integral_type'' =
      Some [(''cell'', 0), (''exterior_facet'', 1), (''interior_facet'', 2)]"
    by (simp add: enumerators_def ufcx_h_def List.map_filter_def)
  have kinds: "map integral_type_value integral_kinds = [0, 1, 2]"
    by (simp add: integral_kinds_def)
  show ?thesis using univ inj rng decl kinds by simp
qed

lemma kernel_signatures_eq:
  "kernel_signatures =
     [(''ufcx_tabulate_tensor_float32'', Base C_void,
         [(''A'', RestrictPointer (Base C_float)),
          (''w'', RestrictPointer (Const (Base C_float))),
          (''c'', RestrictPointer (Const (Base C_float))),
          (''coordinate_dofs'', RestrictPointer (Const (Base C_float))),
          (''entity_local_index'', RestrictPointer (Const (Base C_int))),
          (''quadrature_permutation'', RestrictPointer (Const (Base C_uint8)))]),
      (''ufcx_tabulate_tensor_float64'', Base C_void,
         [(''A'', RestrictPointer (Base C_double)),
          (''w'', RestrictPointer (Const (Base C_double))),
          (''c'', RestrictPointer (Const (Base C_double))),
          (''coordinate_dofs'', RestrictPointer (Const (Base C_double))),
          (''entity_local_index'', RestrictPointer (Const (Base C_int))),
          (''quadrature_permutation'', RestrictPointer (Const (Base C_uint8)))]),
      (''ufcx_tabulate_tensor_complex64'', Base C_void,
         [(''A'', RestrictPointer (Base C_float_complex)),
          (''w'', RestrictPointer (Const (Base C_float_complex))),
          (''c'', RestrictPointer (Const (Base C_float_complex))),
          (''coordinate_dofs'', RestrictPointer (Const (Base C_float))),
          (''entity_local_index'', RestrictPointer (Const (Base C_int))),
          (''quadrature_permutation'', RestrictPointer (Const (Base C_uint8)))]),
      (''ufcx_tabulate_tensor_complex128'', Base C_void,
         [(''A'', RestrictPointer (Base C_double_complex)),
          (''w'', RestrictPointer (Const (Base C_double_complex))),
          (''c'', RestrictPointer (Const (Base C_double_complex))),
          (''coordinate_dofs'', RestrictPointer (Const (Base C_double))),
          (''entity_local_index'', RestrictPointer (Const (Base C_int))),
          (''quadrature_permutation'', RestrictPointer (Const (Base C_uint8)))])]"
  by (simp add: kernel_signatures_def ufcx_h_def tabulate_tensor_type_def List.map_filter_def)

text \<open>
  What a kernel can hand back, by its type: nothing is returned, and \<open>A\<close> is the
  only parameter that is not a pointer to \<open>const\<close>.
\<close>

lemma kernels_write_through_A_only:
  "map (\<lambda>(name, ret, params). (ret, map fst (filter (\<lambda>(p, t). writable t) params)))
     kernel_signatures =
   replicate 4 (Base C_void, [''A''])"
  by (simp add: kernel_signatures_eq eval_nat_numeral)

text \<open>
  C3. The header declares exactly four typedefs of function type, the four
  tabulation kernels. Each returns \<open>void\<close> and takes the six parameters A, w, c,
  coordinate_dofs, entity_local_index and quadrature_permutation, in this order;
  the last two are pointers (so a null pointer can be passed). The scalar types of
  the output tensor A are the four numeric kinds: real and complex, each in single
  and in double precision.
\<close>

theorem four_kernel_signatures:
  "map fst kernel_signatures =
     [''ufcx_tabulate_tensor_float32'', ''ufcx_tabulate_tensor_float64'',
      ''ufcx_tabulate_tensor_complex64'', ''ufcx_tabulate_tensor_complex128'']
   \<and> length kernel_signatures = 4
   \<and> list_all (\<lambda>(name, ret, params). ret = Base C_void) kernel_signatures
   \<and> list_all (\<lambda>(name, ret, params). length params = 6) kernel_signatures
   \<and> list_all (\<lambda>(name, ret, params). map fst params =
        [''A'', ''w'', ''c'', ''coordinate_dofs'', ''entity_local_index'',
         ''quadrature_permutation'']) kernel_signatures
   \<and> list_all (\<lambda>(name, ret, params). list_all (\<lambda>(p, t). is_pointer t) params)
        kernel_signatures
   \<and> map (\<lambda>(name, ret, params). buffer_scalar name ''A'') kernel_signatures =
        [Some C_float, Some C_double, Some C_float_complex, Some C_double_complex]
   \<and> map (\<lambda>(name, ret, params).
            map_option (\<lambda>b. (is_complex b, is_double_precision b)) (buffer_scalar name ''A''))
        kernel_signatures =
        [Some (False, False), Some (False, True), Some (True, False), Some (True, True)]"
  by (simp add: buffer_scalar_def parameter_type_def parameters_def kernel_signatures_eq)

text \<open>
  C8. In the two complex kernel typedefs the buffers A, w and c are complex and
  coordinate_dofs is real in the same precision: \<open>float\<close> for complex64,
  \<open>double\<close> for complex128. In none of the four typedefs is coordinate_dofs complex.
\<close>

theorem complex_kernels_real_geometry:
  "buffer_scalar ''ufcx_tabulate_tensor_complex64'' ''A'' = Some C_float_complex
   \<and> buffer_scalar ''ufcx_tabulate_tensor_complex64'' ''w'' = Some C_float_complex
   \<and> buffer_scalar ''ufcx_tabulate_tensor_complex64'' ''c'' = Some C_float_complex
   \<and> buffer_scalar ''ufcx_tabulate_tensor_complex64'' ''coordinate_dofs'' = Some C_float
   \<and> buffer_scalar ''ufcx_tabulate_tensor_complex128'' ''A'' = Some C_double_complex
   \<and> buffer_scalar ''ufcx_tabulate_tensor_complex128'' ''w'' = Some C_double_complex
   \<and> buffer_scalar ''ufcx_tabulate_tensor_complex128'' ''c'' = Some C_double_complex
   \<and> buffer_scalar ''ufcx_tabulate_tensor_complex128'' ''coordinate_dofs'' = Some C_double
   \<and> map (\<lambda>(name, ret, params).
            map_option is_complex (buffer_scalar name ''coordinate_dofs''))
        kernel_signatures = [Some False, Some False, Some False, Some False]"
  by (simp add: buffer_scalar_def parameter_type_def parameters_def kernel_signatures_eq)

subsection \<open>Constructed forms\<close>

lemma sint_of_nat_fits:
  "fits_int n \<Longrightarrow> sint (of_nat n :: c_int) = int n"
  unfolding fits_int_def
  by (simp add: signed_of_nat signed_take_bit_int_eq_self)

lemma fits_int_le: "fits_int n \<Longrightarrow> m \<le> n \<Longrightarrow> fits_int m"
  by (simp add: fits_int_def)

lemma make_form_SomeD:
  assumes "make_form sig ah cs ks ints = Some f"
  shows "fits_int (length ah)" "fits_int (length cs)" "fits_int (length ks)"
    "fits_int (length (ints cell) + (length (ints exterior_facet) + length (ints interior_facet)))"
    "rank f = of_nat (length ah)"
    "num_coefficients f = of_nat (length cs)"
    "finite_element_hashes f = ah @ map element_hash cs"
    "form_integrals f = map snd (ints cell @ ints exterior_facet @ ints interior_facet)"
    "form_integral_ids f = map fst (ints cell @ ints exterior_facet @ ints interior_facet)"
    "form_integral_offsets f =
       [of_nat 0, of_nat (length (ints cell)),
        of_nat (length (ints cell) + length (ints exterior_facet)),
        of_nat (length (ints cell) + (length (ints exterior_facet) + length (ints interior_facet)))]"
  using assms
  by (auto simp: make_form_def Let_def integral_kinds_def split: if_splits)

lemma form_offsets:
  assumes "make_form sig ah cs ks ints = Some f"
  defines "a \<equiv> length (ints cell)" and "b \<equiv> length (ints exterior_facet)"
    and "c \<equiv> length (ints interior_facet)"
  shows "map sint (form_integral_offsets f) = [0, int a, int (a + b), int (a + (b + c))]"
proof -
  have fit: "fits_int (a + (b + c))"
    using make_form_SomeD(4)[OF assms(1)] by (simp add: a_def b_def c_def)
  have "fits_int 0" "fits_int a" "fits_int (a + b)"
    using fit by (auto intro: fits_int_le)
  then show ?thesis
    using fit unfolding make_form_SomeD(10)[OF assms(1)] a_def b_def c_def
    by (simp only: list.map sint_of_nat_fits) simp
qed

lemma form_entries:
  assumes "make_form sig ah cs ks ints = Some f"
  shows "zip (form_integral_ids f) (form_integrals f) =
     ints cell @ ints exterior_facet @ ints interior_facet"
  unfolding make_form_SomeD(8,9)[OF assms] by (rule zip_map_fst_snd)

text \<open>
  C1. In every constructed form the array of offsets has length 4, it is
  non-decreasing (read as C \<open>int\<close>s), every offset lies between 0 and the length of
  \<open>form_integrals\<close>, the first is 0 and the last is that length, the ids and the
  integrals have the same length, and the entries from offset \<open>k\<close> up to offset
  \<open>k + 1\<close> are the integrals of the kind with enum value \<open>k\<close>: the three slices, in
  the order cell, exterior facet, interior facet, make up the whole list.
\<close>

theorem form_integral_offsets_partition:
  assumes "make_form sig ah cs ks ints = Some f"
  shows "length (form_integral_offsets f) = 4
    \<and> sorted (map sint (form_integral_offsets f))
    \<and> list_all (\<lambda>off. 0 \<le> sint off \<and> sint off \<le> int (length (form_integrals f)))
         (form_integral_offsets f)
    \<and> length (form_integral_ids f) = length (form_integrals f)
    \<and> sint (form_integral_offsets f ! 0) = 0
    \<and> sint (form_integral_offsets f ! 3) = int (length (form_integrals f))
    \<and> (\<forall>kind. integrals_of_kind f kind = ints kind)
    \<and> concat (map (integrals_of_kind f) [cell, exterior_facet, interior_facet]) =
        zip (form_integral_ids f) (form_integrals f)"
proof -
  define a b c where "a = length (ints cell)" and "b = length (ints exterior_facet)"
    and "c = length (ints interior_facet)"
  have offs: "map sint (form_integral_offsets f) = [0, int a, int (a + b), int (a + (b + c))]"
    unfolding a_def b_def c_def by (rule form_offsets[OF assms])
  have len4: "length (form_integral_offsets f) = 4"
    using arg_cong[OF offs, of length] by simp
  have nth: "sint (form_integral_offsets f ! i) = [0, int a, int (a + b), int (a + (b + c))] ! i"
    if "i < 4" for i
    using nth_map[of i "form_integral_offsets f" sint] that len4 offs by simp
  have n0: "sint (form_integral_offsets f ! 0) = 0"
    and n1: "sint (form_integral_offsets f ! 1) = int a"
    and n2: "sint (form_integral_offsets f ! 2) = int (a + b)"
    and n3: "sint (form_integral_offsets f ! 3) = int (a + (b + c))"
    using nth[of 0] nth[of 1] nth[of 2] nth[of 3] by simp_all
  have s1: "sint (form_integral_offsets f ! Suc 0) = int a"
    and s2: "sint (form_integral_offsets f ! Suc (Suc 0)) = int (a + b)"
    and s3: "sint (form_integral_offsets f ! Suc (Suc (Suc 0))) = int (a + (b + c))"
    using n1 n2 n3 by (simp_all add: eval_nat_numeral)
  have entries: "zip (form_integral_ids f) (form_integrals f) =
      ints cell @ ints exterior_facet @ ints interior_facet"
    by (rule form_entries[OF assms])
  have len: "length (form_integrals f) = a + (b + c)"
    unfolding make_form_SomeD(8)[OF assms] a_def b_def c_def by simp
  have lenids: "length (form_integral_ids f) = a + (b + c)"
    unfolding make_form_SomeD(9)[OF assms] a_def b_def c_def by simp
  have sorted: "sorted (map sint (form_integral_offsets f))"
    unfolding offs by simp
  have bounded: "list_all (\<lambda>off. 0 \<le> sint off \<and> sint off \<le> int (length (form_integrals f)))
         (form_integral_offsets f)"
  proof -
    have "list_all (\<lambda>v. 0 \<le> v \<and> v \<le> int (length (form_integrals f)))
        (map sint (form_integral_offsets f))"
      unfolding offs len by simp
    then show ?thesis by (simp add: list_all_iff)
  qed
  have kinds: "integrals_of_kind f kind = ints kind" for kind
  proof (cases kind)
    case cell
    then show ?thesis
      by (simp add: integrals_of_kind_def Let_def n0 s1 entries a_def)
  next
    case exterior_facet
    then show ?thesis
      by (simp add: integrals_of_kind_def Let_def s1 s2 entries a_def b_def)
  next
    case interior_facet
    then show ?thesis
      by (simp add: integrals_of_kind_def Let_def eval_nat_numeral s2 s3 entries a_def b_def c_def)
  qed
  have whole: "concat (map (integrals_of_kind f) [cell, exterior_facet, interior_facet]) =
        zip (form_integral_ids f) (form_integrals f)"
    by (simp add: kinds entries)
  show ?thesis
    using len4 sorted bounded len lenids n0 n3 kinds whole by simp
qed

theorem form_integral_offsets_partition_witness:
  "(case make_form ''a'' [10, 20] example_coefficients [''k''] example_integrals of
      None \<Rightarrow> False
    | Some f \<Rightarrow>
        length (form_integral_offsets f) = 4
        \<and> form_integral_offsets f = [0, 2, 2, 3]
        \<and> sorted (map sint (form_integral_offsets f))
        \<and> length (form_integrals f) = 3
        \<and> length (form_integral_ids f) = 3
        \<and> integrals_of_kind f cell = example_integrals cell
        \<and> integrals_of_kind f exterior_facet = []
        \<and> integrals_of_kind f interior_facet = [(5, example_integral ''interior_5'')])"
proof -
  obtain f where f: "make_form ''a'' [10, 20] example_coefficients [''k''] example_integrals = Some f"
    by (simp add: make_form_def Let_def fits_int_def integral_kinds_def example_coefficients_def)
  have offs: "form_integral_offsets f = [0, 2, 2, 3]"
    and len: "length (form_integrals f) = 3"
    using f by (auto simp: make_form_def Let_def integral_kinds_def split: if_splits)
  from form_integral_offsets_partition[OF f]
  have "length (form_integral_offsets f) = 4
        \<and> sorted (map sint (form_integral_offsets f))
        \<and> length (form_integral_ids f) = 3
        \<and> integrals_of_kind f cell = example_integrals cell
        \<and> integrals_of_kind f exterior_facet = []
        \<and> integrals_of_kind f interior_facet = [(5, example_integral ''interior_5'')]"
    by (simp add: len)
  then show ?thesis by (simp add: f offs len)
qed

text \<open>
  C7. In every constructed form of rank \<open>r\<close> with \<open>n\<close> coefficients the array of
  element hashes has length \<open>r + n\<close>; its entry \<open>i\<close> is the hash for argument \<open>i\<close>
  when \<open>i < r\<close>, and the hash for coefficient \<open>i - r\<close> when \<open>r \<le> i < r + n\<close>.
\<close>

theorem finite_element_hashes_layout:
  assumes "make_form sig ah cs ks ints = Some f"
  shows "sint (rank f) = int (length ah)
    \<and> sint (num_coefficients f) = int (length cs)
    \<and> length (finite_element_hashes f) = nat (sint (rank f)) + nat (sint (num_coefficients f))
    \<and> (\<forall>i. i < nat (sint (rank f)) \<longrightarrow> finite_element_hashes f ! i = ah ! i)
    \<and> (\<forall>i. nat (sint (rank f)) \<le> i
            \<and> i < nat (sint (rank f)) + nat (sint (num_coefficients f)) \<longrightarrow>
          finite_element_hashes f ! i = element_hash (cs ! (i - nat (sint (rank f)))))"
proof -
  have r: "sint (rank f) = int (length ah)"
    unfolding make_form_SomeD(5)[OF assms]
    by (rule sint_of_nat_fits[OF make_form_SomeD(1)[OF assms]])
  have n: "sint (num_coefficients f) = int (length cs)"
    unfolding make_form_SomeD(6)[OF assms]
    by (rule sint_of_nat_fits[OF make_form_SomeD(2)[OF assms]])
  have h: "finite_element_hashes f = ah @ map element_hash cs"
    by (rule make_form_SomeD(7)[OF assms])
  have len: "length (finite_element_hashes f) = length ah + length cs"
    unfolding h by simp
  have args: "finite_element_hashes f ! i = ah ! i" if "i < length ah" for i
    unfolding h using that by (simp add: nth_append)
  have coeffs: "finite_element_hashes f ! i = element_hash (cs ! (i - length ah))"
    if "length ah \<le> i" "i < length ah + length cs" for i
    unfolding h using that by (simp add: nth_append)
  show ?thesis
    using len args coeffs by (simp add: r n)
qed

theorem finite_element_hashes_layout_witness:
  "(case make_form ''a'' [10, 20] example_coefficients [''k''] example_integrals of
      None \<Rightarrow> False
    | Some f \<Rightarrow>
        sint (rank f) = 2 \<and> sint (num_coefficients f) = 3
        \<and> length (finite_element_hashes f) = 5
        \<and> finite_element_hashes f = [10, 20, 30, 40, 50]
        \<and> finite_element_hashes f ! 1 = [10, 20] ! 1
        \<and> finite_element_hashes f ! 4 = element_hash (example_coefficients ! (4 - 2)))"
proof -
  obtain f where f: "make_form ''a'' [10, 20] example_coefficients [''k''] example_integrals = Some f"
    by (simp add: make_form_def Let_def fits_int_def integral_kinds_def example_coefficients_def)
  have hashes: "finite_element_hashes f = [10, 20, 30, 40, 50]"
    using f by (auto simp: make_form_def Let_def example_coefficients_def split: if_splits)
  from finite_element_hashes_layout[OF f]
  have "sint (rank f) = 2 \<and> sint (num_coefficients f) = 3
        \<and> length (finite_element_hashes f) = 5
        \<and> finite_element_hashes f ! 1 = [10, 20] ! 1
        \<and> finite_element_hashes f ! 4 = element_hash (example_coefficients ! (4 - 2))"
    by (simp add: example_coefficients_def)
  then show ?thesis by (simp add: f hashes)
qed

end
